theory Spec2Isabelle
  imports Complex_Main "HOL-Library.Multiset"
begin

section \<open>Values read from stored records\<close>

text \<open>
  The handlers of \<^verbatim>\<open>GET /api/loans\<close> and \<^verbatim>\<open>GET /api/deposits\<close> receive plain
  objects (\<^verbatim>\<open>.lean()\<close>). A date field is looked at in two ways only: through its
  truthiness (\<^verbatim>\<open>e.date\<close>, \<^verbatim>\<open>a.dateAD || 0\<close>) and through \<^verbatim>\<open>new Date(v)\<close>.
  \<^item> \<open>Absent\<close>: the field is \<^verbatim>\<open>undefined\<close>; falsy, and \<^verbatim>\<open>new Date(undefined)\<close> is an
    Invalid Date.
  \<^item> \<open>NullDate\<close>: the field is \<^verbatim>\<open>null\<close>; falsy, and \<^verbatim>\<open>new Date(null)\<close> is the epoch.
  \<^item> \<open>DateAt t\<close>: a Date object (or a parseable date string) whose time value is
    \<open>t\<close> milliseconds since the epoch; truthy.
  \<^item> \<open>Unparseable\<close>: a truthy value that \<^verbatim>\<open>new Date\<close> turns into an Invalid Date,
    such as the string \<^verbatim>\<open>"garbage"\<close> or an Invalid Date object.
  The time value of a Date is \<open>Some t\<close>, or \<open>None\<close> for an Invalid Date (NaN).

  Numbers are modelled as reals: finite values with exact arithmetic.
\<close>

datatype date_like = Absent | NullDate | DateAt int | Unparseable

fun truthy :: "date_like \<Rightarrow> bool" where
  "truthy Absent = False"
| "truthy NullDate = False"
| "truthy (DateAt t) = True"
| "truthy Unparseable = True"

fun new_Date :: "date_like \<Rightarrow> int option" where
  "new_Date Absent = None"
| "new_Date NullDate = Some 0"
| "new_Date (DateAt t) = Some t"
| "new_Date Unparseable = None"

text \<open>
  A stored numeric field is a Number, or a BigInt when the driver is set to return
  64-bit integers as such. Arithmetic that mixes a BigInt with a Number throws a
  TypeError; \<^verbatim>\<open>0n\<close> is falsy. The interest rate is the one field that enters such
  arithmetic directly; \<^verbatim>\<open>amountGiven\<close> and the event amounts go through
  \<^verbatim>\<open>Number(...)\<close> first and are kept as Numbers here.
\<close>

datatype js_num = Num real | BigInt int

datatype js_error = TypeError

text \<open>
  An entry of \<^verbatim>\<open>partialRepayments\<close>; its \<^verbatim>\<open>daysSinceLoan\<close> is never read. In a loan
  record \<open>loan_date\<close> is the field \<^verbatim>\<open>date\<close>, \<open>amountReceived\<close> the stored value that the
  view overrides, and \<open>other\<close> stands for all the stored fields the handler only passes
  through.
\<close>

record repayment =
  amount :: real
  date :: date_like

record 'a loan =
  amountGiven :: real
  loan_date :: date_like
  interestRate :: js_num
  partialRepayments :: "repayment option list option"
  amountReceived :: real
  other :: 'a

section \<open>Loan ledger simulation\<close>

record ledger =
  principal :: real
  accrued :: real
  interestPaid :: real
  extraInterestPaid :: real
  lastDate :: "int option"

definition ms_per_day :: int where
  "ms_per_day = 1000 * 60 * 60 * 24"

text \<open>
  \<^verbatim>\<open>Math.max(0, Math.floor((later - earlier) / (1000 * 60 * 60 * 24)))\<close>; the result is
  NaN (\<open>None\<close>) as soon as one of the two dates is invalid.
\<close>

definition elapsed_days :: "int option \<Rightarrow> int option \<Rightarrow> int option" where
  "elapsed_days later earlier =
     (case (later, earlier) of
        (Some b, Some a) \<Rightarrow> Some (max 0 \<lfloor>real_of_int (b - a) / real_of_int ms_per_day\<rfloor>)
      | _ \<Rightarrow> None)"

text \<open>
  Lines 368--371 in the loop and 397--400 after it:
  \<^verbatim>\<open>if (days > 0 && principal > 0) accrued += principal * dailyRate * days\<close>.
  A comparison with NaN is false.
\<close>

definition accrue_until :: "real \<Rightarrow> int option \<Rightarrow> ledger \<Rightarrow> ledger" where
  "accrue_until dailyRate until s =
     (case elapsed_days until (lastDate s) of
        Some days \<Rightarrow>
          if days > 0 \<and> principal s > 0
          then s\<lparr>accrued := accrued s + principal s * dailyRate * real_of_int days\<rparr>
          else s
      | None \<Rightarrow> s)"

text \<open>Lines 373--393: a negative amount is a top-up, a positive one a payment.\<close>

definition allocate :: "real \<Rightarrow> ledger \<Rightarrow> ledger" where
  "allocate payment s =
     (if payment < 0 then s\<lparr>principal := principal s + (- payment)\<rparr>
      else if payment > 0 then
        (let interestPortion = min payment (accrued s);
             accrued1 = accrued s - interestPortion;
             interestPaid1 = interestPaid s + interestPortion;
             payment1 = payment - interestPortion;
             principalPortion = min payment1 (principal s);
             principal1 = (if payment1 > 0 then principal s - principalPortion else principal s);
             payment2 = (if payment1 > 0 then payment1 - principalPortion else payment1);
             extra1 = (if payment2 > 0 then extraInterestPaid s + payment2
                       else extraInterestPaid s)
         in s\<lparr>principal := principal1, accrued := accrued1,
               interestPaid := interestPaid1, extraInterestPaid := extra1\<rparr>)
      else s)"

text \<open>One iteration of \<^verbatim>\<open>for (const ev of events)\<close>, lines 366--395.\<close>

definition ev_step :: "real \<Rightarrow> ledger \<Rightarrow> repayment \<Rightarrow> ledger" where
  "ev_step dailyRate s ev =
     (let evDate = new_Date (date ev)
      in (allocate (amount ev) (accrue_until dailyRate evDate s))\<lparr>lastDate := evDate\<rparr>)"

definition walk :: "real \<Rightarrow> ledger \<Rightarrow> repayment list \<Rightarrow> ledger" where
  "walk dailyRate s events = foldl (ev_step dailyRate) s events"

text \<open>
  Lines 403--410, the 30-day minimum interest. \<open>startDate\<close> is the time value of
  \<^verbatim>\<open>new Date(loan.date)\<close>.
\<close>

definition enforce_min_interest :: "real \<Rightarrow> real \<Rightarrow> int option \<Rightarrow> int \<Rightarrow> ledger \<Rightarrow> ledger" where
  "enforce_min_interest dailyRate given startDate asOf s =
     (case elapsed_days (Some asOf) startDate of
        Some daysSinceStart \<Rightarrow>
          if daysSinceStart < 30 then
            (let minInterest = given * dailyRate * 30;
                 paidSoFar = interestPaid s + extraInterestPaid s + accrued s
             in if minInterest > paidSoFar
                then s\<lparr>accrued := accrued s + (minInterest - paidSoFar)\<rparr>
                else s)
          else s
      | None \<Rightarrow> s)"

text \<open>Line 353: \<^verbatim>\<open>(loan.interestRate || 0) / 365 / 100\<close>.\<close>

fun daily_rate :: "js_num \<Rightarrow> js_error + real" where
  "daily_rate (Num r) = Inr (r / 365 / 100)"
| "daily_rate (BigInt n) = (if n = 0 then Inr 0 else Inl TypeError)"

section \<open>Sorting with a comparator\<close>

text \<open>
  \<^verbatim>\<open>Array.prototype.sort(comparefn)\<close> is stable, and a comparator result of NaN counts
  as \<open>+0\<close>. The model is the stable insertion sort. When all compared dates are valid
  the comparator is consistent and the result is the only one the language allows;
  with an invalid date among several entries the language leaves the order to the
  implementation, and nothing below depends on it.
\<close>

definition date_diff :: "int option \<Rightarrow> int option \<Rightarrow> int option" where
  "date_diff a b = (case (a, b) of (Some x, Some y) \<Rightarrow> Some (x - y) | _ \<Rightarrow> None)"

definition nan_as_zero :: "int option \<Rightarrow> int" where
  "nan_as_zero v = (case v of Some n \<Rightarrow> n | None \<Rightarrow> 0)"

fun insert_cmp :: "('a \<Rightarrow> 'a \<Rightarrow> int option) \<Rightarrow> 'a \<Rightarrow> 'a list \<Rightarrow> 'a list" where
  "insert_cmp cmp x [] = [x]"
| "insert_cmp cmp x (y # ys) =
     (if nan_as_zero (cmp x y) \<le> 0 then x # y # ys else y # insert_cmp cmp x ys)"

definition js_sort :: "('a \<Rightarrow> 'a \<Rightarrow> int option) \<Rightarrow> 'a list \<Rightarrow> 'a list" where
  "js_sort cmp xs = foldr (insert_cmp cmp) xs []"

section \<open>Event normalisation\<close>

text \<open>Line 361: \<^verbatim>\<open>.filter(e => e && e.date)\<close>; \<open>None\<close> is a \<^verbatim>\<open>null\<close> entry.\<close>

fun keep_dated :: "repayment option list \<Rightarrow> repayment list" where
  "keep_dated [] = []"
| "keep_dated (None # es) = keep_dated es"
| "keep_dated (Some e # es) = (if truthy (date e) then e # keep_dated es else keep_dated es)"

text \<open>Line 362: \<^verbatim>\<open>(a, b) => new Date(a.date) - new Date(b.date)\<close>.\<close>

definition by_date :: "repayment \<Rightarrow> repayment \<Rightarrow> int option" where
  "by_date a b = date_diff (new_Date (date a)) (new_Date (date b))"

text \<open>Lines 359--363; \<open>None\<close> is a field that is not an array.\<close>

definition normalize :: "repayment option list option \<Rightarrow> repayment list" where
  "normalize raw =
     (case raw of
        Some entries \<Rightarrow> js_sort by_date (keep_dated entries)
      | None \<Rightarrow> [])"

text \<open>Lines 412--414.\<close>

definition amount_received :: "repayment list \<Rightarrow> real" where
  "amount_received events =
     foldl (\<lambda>s e. s + amount e) 0 (filter (\<lambda>e. amount e > 0) events)"

section \<open>Loan enrichment\<close>

record 'a loan_view =
  stored :: "'a loan"
  remainingPrincipal :: real
  dueAmount :: real

text \<open>Lines 354--357 and 365: the ledger before the first event.\<close>

definition initial_ledger :: "'a loan \<Rightarrow> ledger" where
  "initial_ledger loan =
     \<lparr>principal = amountGiven loan, accrued = 0, interestPaid = 0,
      extraInterestPaid = 0, lastDate = new_Date (loan_date loan)\<rparr>"

text \<open>Lines 366--400: the event loop followed by the tail segment up to \<open>asOf\<close>.\<close>

definition after_tail :: "real \<Rightarrow> int \<Rightarrow> ledger \<Rightarrow> repayment list \<Rightarrow> ledger" where
  "after_tail dailyRate asOf s events =
     accrue_until dailyRate (Some asOf) (walk dailyRate s events)"

text \<open>Lines 354--410: the ledger the view is built from.\<close>

definition simulate :: "real \<Rightarrow> int \<Rightarrow> 'a loan \<Rightarrow> repayment list \<Rightarrow> ledger" where
  "simulate dailyRate asOf loan events =
     enforce_min_interest dailyRate (amountGiven loan) (new_Date (loan_date loan)) asOf
       (after_tail dailyRate asOf (initial_ledger loan) events)"

text \<open>
  The body of the \<^verbatim>\<open>try\<close> block, lines 352--423. \<open>asOf\<close> is the clock value that
  \<^verbatim>\<open>new Date()\<close> reads at line 352.
\<close>

definition enrich_try :: "int \<Rightarrow> 'a loan \<Rightarrow> js_error + 'a loan_view" where
  "enrich_try asOf loan =
     (case daily_rate (interestRate loan) of
        Inl err \<Rightarrow> Inl err
      | Inr dailyRate \<Rightarrow>
          (let events = normalize (partialRepayments loan);
               s = simulate dailyRate asOf loan events
           in Inr \<lparr>stored = loan\<lparr>amountReceived := amount_received events\<rparr>,
                   remainingPrincipal = principal s,
                   dueAmount = principal s + accrued s\<rparr>))"

text \<open>Lines 424--430, the \<^verbatim>\<open>catch\<close> block.\<close>

definition fallback :: "'a loan \<Rightarrow> 'a loan_view" where
  "fallback loan =
     \<lparr>stored = loan, remainingPrincipal = amountGiven loan, dueAmount = amountGiven loan\<rparr>"

definition enrich :: "int \<Rightarrow> 'a loan \<Rightarrow> 'a loan_view" where
  "enrich asOf loan = (case enrich_try asOf loan of Inr v \<Rightarrow> v | Inl err \<Rightarrow> fallback loan)"

text \<open>
  Line 350, \<^verbatim>\<open>loans.map(...)\<close>: the clock is read once for each record, \<open>now i\<close> is
  the value read for the record at position \<open>i\<close>.
\<close>

definition enrich_all :: "(nat \<Rightarrow> int) \<Rightarrow> 'a loan list \<Rightarrow> 'a loan_view list" where
  "enrich_all now loans = map (\<lambda>(i, loan). enrich (now i) loan) (enumerate 0 loans)"

section \<open>Deposit balance\<close>

text \<open>
  A transaction's \<open>txn_type\<close> and \<open>txn_amount\<close> are its fields \<^verbatim>\<open>type\<close> and
  \<^verbatim>\<open>amount\<close>; \<open>balanceAfter\<close> is \<open>Some b\<close> when the stored value is a number.
\<close>

record deposit_transaction =
  txn_type :: string
  txn_amount :: real
  dateAD :: date_like
  balanceAfter :: "real option"

record 'a deposit =
  transactions :: "deposit_transaction option list option"
  deposit_other :: 'a

record 'a deposit_view =
  deposit_fields :: "'a deposit"
  currentBalance :: real

text \<open>Line 465: \<^verbatim>\<open>new Date(a.dateAD || 0)\<close>.\<close>

definition effective_date :: "deposit_transaction \<Rightarrow> int option" where
  "effective_date t = (if truthy (dateAD t) then new_Date (dateAD t) else Some 0)"

definition by_dateAD :: "deposit_transaction \<Rightarrow> deposit_transaction \<Rightarrow> int option" where
  "by_dateAD a b = date_diff (effective_date a) (effective_date b)"

text \<open>Lines 470--474.\<close>

definition apply_txn :: "real \<Rightarrow> deposit_transaction \<Rightarrow> real" where
  "apply_txn bal t =
     (if txn_type t = ''Deposit'' then bal + txn_amount t
      else if txn_type t = ''Withdrawal'' then bal - txn_amount t
      else bal)"

text \<open>
  Lines 463--476 on a non-empty array without \<^verbatim>\<open>null\<close> entries;
  \<open>balanceAfter t = Some b\<close> stands for \<^verbatim>\<open>typeof t.balanceAfter === 'number'\<close>.
\<close>

definition balance_of :: "deposit_transaction list \<Rightarrow> real" where
  "balance_of txs =
     (let sorted = js_sort by_dateAD txs;
          final = last sorted
      in case balanceAfter final of
           Some b \<Rightarrow> b
         | None \<Rightarrow> foldl apply_txn 0 sorted)"

text \<open>
  The body of the \<^verbatim>\<open>try\<close> block, lines 463--476. Reading a property of a \<^verbatim>\<open>null\<close>
  entry throws a TypeError: in the comparator when the array has two or more entries
  (a sort compares every entry at least once), at \<^verbatim>\<open>last.balanceAfter\<close> when it is
  the only entry.
\<close>

definition reconstruct_try :: "deposit_transaction option list option \<Rightarrow> js_error + real" where
  "reconstruct_try raw =
     (case raw of
        None \<Rightarrow> Inr 0
      | Some entries \<Rightarrow>
          if entries = [] then Inr 0
          else (case those entries of
                  None \<Rightarrow> Inl TypeError
                | Some txs \<Rightarrow> Inr (balance_of txs)))"

text \<open>Lines 460--479: \<^verbatim>\<open>currentBalance\<close> keeps its initial 0 when the block throws.\<close>

definition enrich_deposit :: "'a deposit \<Rightarrow> 'a deposit_view" where
  "enrich_deposit d =
     \<lparr>deposit_fields = d,
      currentBalance = (case reconstruct_try (transactions d) of Inr b \<Rightarrow> b | Inl err \<Rightarrow> 0)\<rparr>"

section \<open>Formulations taken from the specification\<close>

text \<open>
  The specification's day-count rule: the whole days from one instant to another,
  never negative.
\<close>

definition day_count :: "int \<Rightarrow> int \<Rightarrow> int" where
  "day_count from until = max 0 ((until - from) div ms_per_day)"

text \<open>
  The specification's interest for one segment: \<open>principal \<times> dailyRate \<times> elapsedDays\<close>,
  added only when both the day count and the principal are positive.
\<close>

definition interest_due :: "real \<Rightarrow> real \<Rightarrow> int \<Rightarrow> real" where
  "interest_due p r days = (if days > 0 \<and> p > 0 then p * r * real_of_int days else 0)"

text \<open>The ledger invariant: no running quantity is negative.\<close>

definition nonneg :: "ledger \<Rightarrow> bool" where
  "nonneg s \<longleftrightarrow>
     0 \<le> principal s \<and> 0 \<le> accrued s \<and> 0 \<le> interestPaid s \<and> 0 \<le> extraInterestPaid s"

text \<open>The number a stored numeric field denotes.\<close>

fun num_value :: "js_num \<Rightarrow> real" where
  "num_value (Num r) = r"
| "num_value (BigInt n) = real_of_int n"

text \<open>The sort key of an event with a valid date.\<close>

definition time_of :: "repayment \<Rightarrow> int" where
  "time_of e = (case new_Date (date e) of Some t \<Rightarrow> t | None \<Rightarrow> 0)"

text \<open>The effective date of a transaction: its date, or the epoch when it has none.\<close>

definition epoch_ms :: "deposit_transaction \<Rightarrow> int" where
  "epoch_ms t = (case dateAD t of DateAt ms \<Rightarrow> ms | _ \<Rightarrow> 0)"

text \<open>What a transaction contributes to the recomputed balance.\<close>

definition signed_amount :: "deposit_transaction \<Rightarrow> real" where
  "signed_amount t =
     (if txn_type t = ''Deposit'' then txn_amount t
      else if txn_type t = ''Withdrawal'' then - txn_amount t
      else 0)"

text \<open>
  The instant up to which interest accrues after a position in the event sequence:
  the date of the next event, or the as-of instant after the last one.
\<close>

definition next_date :: "int \<Rightarrow> repayment list \<Rightarrow> int option" where
  "next_date asOf ys = (case ys of [] \<Rightarrow> Some asOf | y # _ \<Rightarrow> new_Date (date y))"

section \<open>Auxiliary facts\<close>

subsection \<open>Day counting and accrual\<close>

lemma elapsed_days_valid: "elapsed_days (Some b) (Some a) = Some (day_count a b)"
  by (simp add: elapsed_days_def day_count_def floor_divide_of_int_eq del: of_int_diff)

lemma day_count_nonneg: "0 \<le> day_count a b"
  by (simp add: day_count_def)

lemma day_count_bounds:
  assumes "a \<le> b"
  shows "day_count a b * ms_per_day \<le> b - a \<and> b - a < (day_count a b + 1) * ms_per_day"
proof -
  have pos: "0 < ms_per_day" by (simp add: ms_per_day_def)
  from assms have "0 \<le> (b - a) div ms_per_day"
    using pos by (simp add: pos_imp_zdiv_nonneg_iff)
  then have d: "day_count a b = (b - a) div ms_per_day" by (simp add: day_count_def)
  have split: "b - a = (b - a) div ms_per_day * ms_per_day + (b - a) mod ms_per_day"
    by simp
  have "0 \<le> (b - a) mod ms_per_day" and "(b - a) mod ms_per_day < ms_per_day"
    using pos by simp_all
  with split have "(b - a) div ms_per_day * ms_per_day \<le> b - a"
    and "b - a < ((b - a) div ms_per_day + 1) * ms_per_day"
    by (linarith, simp add: distrib_right, linarith)
  then show ?thesis by (simp add: d)
qed

lemma accrue_until_valid:
  "lastDate s = Some l \<Longrightarrow>
   accrue_until r (Some e) s =
     s\<lparr>accrued := accrued s + interest_due (principal s) r (day_count l e)\<rparr>"
  by (simp add: accrue_until_def elapsed_days_valid interest_due_def)

lemma principal_accrue_until [simp]: "principal (accrue_until r u s) = principal s"
  by (simp add: accrue_until_def split: option.splits)

lemma interestPaid_accrue_until [simp]: "interestPaid (accrue_until r u s) = interestPaid s"
  by (simp add: accrue_until_def split: option.splits)

lemma extraInterestPaid_accrue_until [simp]:
  "extraInterestPaid (accrue_until r u s) = extraInterestPaid s"
  by (simp add: accrue_until_def split: option.splits)

subsection \<open>The event loop\<close>

lemma walk_snoc: "walk r s (evs @ [ev]) = ev_step r (walk r s evs) ev"
  by (simp add: walk_def)

lemma walk_append: "walk r s (xs @ ys) = walk r (walk r s xs) ys"
  by (simp add: walk_def)

lemma walk_Cons: "walk r s (x # xs) = walk r (ev_step r s x) xs"
  by (simp add: walk_def)

lemma allocate_payment:
  assumes "0 < payment" and "0 \<le> principal s"
  shows "allocate payment s =
    s\<lparr>principal := principal s - min (payment - min payment (accrued s)) (principal s),
      accrued := accrued s - min payment (accrued s),
      interestPaid := interestPaid s + min payment (accrued s),
      extraInterestPaid := extraInterestPaid s
        + (payment - min payment (accrued s)
           - min (payment - min payment (accrued s)) (principal s))\<rparr>"
  using assms by (auto simp: allocate_def Let_def min_def)

lemma allocate_zero: "allocate 0 s = s"
  by (simp add: allocate_def)

lemma allocate_lastDate: "allocate p (s\<lparr>lastDate := d\<rparr>) = (allocate p s)\<lparr>lastDate := d\<rparr>"
  by (simp add: allocate_def Let_def)

lemma enforce_lastDate:
  "enforce_min_interest r g st asOf (s\<lparr>lastDate := d\<rparr>)
     = (enforce_min_interest r g st asOf s)\<lparr>lastDate := d\<rparr>"
  by (simp add: enforce_min_interest_def Let_def split: option.splits)

lemma zero_event_step:
  "amount z = 0 \<Longrightarrow>
   ev_step r s z = (accrue_until r (new_Date (date z)) s)\<lparr>lastDate := new_Date (date z)\<rparr>"
  by (simp add: ev_step_def Let_def allocate_zero)

text \<open>
  A zero-amount event that leaves all the whole days of its interval on one side: either
  it accrues nothing and the next accrual counts every day, or it accrues every day and
  the next accrual counts none, or the principal is not positive and nothing accrues. No
  sum of two segments is formed.
\<close>

lemma zero_event_then_accrue:
  assumes "amount z = 0" and "new_Date (date z) = Some dz" and "lastDate w = Some l"
    and "(day_count l dz = 0 \<and> day_count dz dn = day_count l dn)
       \<or> (day_count dz dn = 0 \<and> day_count l dz = day_count l dn)
       \<or> principal w \<le> 0"
  shows "accrue_until r (Some dn) (ev_step r w z)
           = (accrue_until r (Some dn) w)\<lparr>lastDate := Some dz\<rparr>"
proof -
  have step: "ev_step r w z = (accrue_until r (Some dz) w)\<lparr>lastDate := Some dz\<rparr>"
    using assms(1,2) by (simp add: zero_event_step)
  from assms(4) consider
      (before) "day_count l dz = 0 \<and> day_count dz dn = day_count l dn"
    | (after) "day_count dz dn = 0 \<and> day_count l dz = day_count l dn"
    | (idle) "principal w \<le> 0"
    by blast
  then show ?thesis
  proof cases
    case before
    then show ?thesis
      using assms(3) by (simp add: step accrue_until_def elapsed_days_valid)
  next
    case after
    then show ?thesis
      using assms(3) by (simp add: step accrue_until_def elapsed_days_valid)
  next
    case idle
    then show ?thesis
      using assms(3) by (simp add: step accrue_until_def elapsed_days_valid)
  qed
qed

lemma amount_received_zero:
  "amount z = 0 \<Longrightarrow> amount_received (xs @ z # ys) = amount_received (xs @ ys)"
  by (simp add: amount_received_def)

subsection \<open>Non-negative ledgers\<close>

lemma nonneg_accrue_until: "0 \<le> r \<Longrightarrow> nonneg s \<Longrightarrow> nonneg (accrue_until r u s)"
  by (auto simp: nonneg_def accrue_until_def split: option.splits)

lemma nonneg_allocate: "nonneg s \<Longrightarrow> nonneg (allocate p s)"
  by (auto simp: nonneg_def allocate_def Let_def min_def)

lemma nonneg_ev_step: "0 \<le> r \<Longrightarrow> nonneg s \<Longrightarrow> nonneg (ev_step r s ev)"
  using nonneg_allocate [OF nonneg_accrue_until, of r s "amount ev" "new_Date (date ev)"]
  by (simp add: ev_step_def Let_def nonneg_def)

lemma nonneg_walk: "0 \<le> r \<Longrightarrow> nonneg s \<Longrightarrow> nonneg (walk r s evs)"
  by (induction evs rule: rev_induct) (simp_all add: walk_snoc nonneg_ev_step, simp add: walk_def)

lemma nonneg_enforce: "nonneg s \<Longrightarrow> nonneg (enforce_min_interest r g d asOf s)"
  by (auto simp: nonneg_def enforce_min_interest_def Let_def split: option.splits)

lemma nonneg_initial: "0 \<le> amountGiven loan \<Longrightarrow> nonneg (initial_ledger loan)"
  by (simp add: nonneg_def initial_ledger_def)

lemma daily_rate_nonneg: "0 \<le> num_value n \<Longrightarrow> daily_rate n = Inr r \<Longrightarrow> 0 \<le> r"
  by (cases n) (auto split: if_splits)

subsection \<open>Sorting\<close>

lemma mset_insert_cmp: "mset (insert_cmp cmp x ys) = add_mset x (mset ys)"
  by (induction ys) simp_all

lemma mset_js_sort: "mset (js_sort cmp xs) = mset xs"
  by (induction xs) (simp_all add: js_sort_def mset_insert_cmp)

text \<open>
  With valid keys throughout, inserting by the comparator is inserting by the key, so
  the sort is the library's stable \<open>sort_key\<close>.
\<close>

lemma insert_cmp_insort_key:
  assumes "key x = Some (f x)" and "\<forall>y\<in>set ys. key y = Some (f y)"
  shows "insert_cmp (\<lambda>a b. date_diff (key a) (key b)) x ys = insort_key f x ys"
  using assms by (induction ys) (simp_all add: date_diff_def nan_as_zero_def)

lemma js_sort_sort_key:
  assumes "\<forall>x\<in>set xs. key x = Some (f x)"
  shows "js_sort (\<lambda>a b. date_diff (key a) (key b)) xs = sort_key f xs"
  using assms
proof (induction xs)
  case Nil
  show ?case by (simp add: js_sort_def)
next
  case (Cons x xs)
  then have "js_sort (\<lambda>a b. date_diff (key a) (key b)) xs = sort_key f xs" by simp
  then have "js_sort (\<lambda>a b. date_diff (key a) (key b)) (x # xs)
      = insert_cmp (\<lambda>a b. date_diff (key a) (key b)) x (sort_key f xs)"
    by (simp add: js_sort_def)
  also have "\<dots> = insort_key f x (sort_key f xs)"
    using Cons.prems by (intro insert_cmp_insort_key) simp_all
  finally show ?case by simp
qed

lemma keep_dated_comprehension:
  "keep_dated entries = [e. Some e \<leftarrow> entries, truthy (date e)]"
  by (induction entries rule: keep_dated.induct) simp_all

lemma keep_dated_append: "keep_dated (xs @ ys) = keep_dated xs @ keep_dated ys"
  by (induction xs rule: keep_dated.induct) simp_all

lemma keep_dated_dropped:
  assumes "d = None \<or> (\<exists>e. d = Some e \<and> \<not> truthy (date e))"
  shows "keep_dated (xs @ d # ys) = keep_dated (xs @ ys)"
  using assms by (auto simp: keep_dated_append)

lemma normalize_dropped:
  assumes "d = None \<or> (\<exists>e. d = Some e \<and> \<not> truthy (date e))"
  shows "normalize (Some (xs @ d # ys)) = normalize (Some (xs @ ys))"
  using keep_dated_dropped [OF assms] by (simp add: normalize_def)

lemma set_keep_dated: "set (keep_dated entries) = {e. Some e \<in> set entries \<and> truthy (date e)}"
  by (induction entries rule: keep_dated.induct) auto

lemma normalize_sort_key:
  assumes "\<forall>e. Some e \<in> set entries \<and> truthy (date e) \<longrightarrow> new_Date (date e) \<noteq> None"
  shows "normalize (Some entries) = sort_key time_of (keep_dated entries)"
proof -
  have "\<forall>e\<in>set (keep_dated entries). new_Date (date e) = Some (time_of e)"
    using assms by (auto simp: set_keep_dated time_of_def)
  then have "js_sort (\<lambda>a b. date_diff (new_Date (date a)) (new_Date (date b))) (keep_dated entries)
      = sort_key time_of (keep_dated entries)"
    by (rule js_sort_sort_key)
  moreover have "by_date = (\<lambda>a b. date_diff (new_Date (date a)) (new_Date (date b)))"
    by (intro ext) (simp add: by_date_def)
  ultimately show ?thesis by (simp add: normalize_def)
qed

subsection \<open>Deposits\<close>

lemma those_map_Some: "those (map Some xs) = Some xs"
  by (induction xs) simp_all

lemma those_null: "None \<in> set entries \<Longrightarrow> those entries = None"
  by (induction entries) (auto split: option.splits)

lemma effective_date_epoch_ms:
  "dateAD t \<noteq> Unparseable \<Longrightarrow> effective_date t = Some (epoch_ms t)"
  by (cases "dateAD t") (simp_all add: effective_date_def epoch_ms_def)

lemma dateless_epoch_ms: "\<not> truthy (dateAD t) \<Longrightarrow> epoch_ms t = 0"
  by (cases "dateAD t") (simp_all add: epoch_ms_def)

lemma sort_transactions_sort_key:
  assumes "\<forall>t\<in>set txs. dateAD t \<noteq> Unparseable"
  shows "js_sort by_dateAD txs = sort_key epoch_ms txs"
proof -
  have "\<forall>t\<in>set txs. effective_date t = Some (epoch_ms t)"
    using assms by (simp add: effective_date_epoch_ms)
  then have "js_sort (\<lambda>a b. date_diff (effective_date a) (effective_date b)) txs
      = sort_key epoch_ms txs"
    by (rule js_sort_sort_key)
  moreover have "by_dateAD = (\<lambda>a b. date_diff (effective_date a) (effective_date b))"
    by (intro ext) (simp add: by_dateAD_def)
  ultimately show ?thesis by simp
qed

lemma foldl_apply_txn: "foldl apply_txn bal txs = bal + sum_list (map signed_amount txs)"
  by (induction txs arbitrary: bal) (simp_all add: apply_txn_def signed_amount_def)

subsection \<open>The batch\<close>

lemma enrich_all_nth:
  "i < length loans \<Longrightarrow> enrich_all now loans ! i = enrich (now i) (loans ! i)"
  by (simp add: enrich_all_def nth_enumerate_eq)

lemma length_enrich_all: "length (enrich_all now loans) = length loans"
  by (simp add: enrich_all_def)

section \<open>Interest accrual\<close>

text \<open>
  C1. At every event of the walk, with \<open>l\<close> the last date before it and \<open>e\<close> its own
  date, the elapsed days are the whole days from \<open>l\<close> to \<open>e\<close>, never negative; the
  event adds \<open>principal \<times> dailyRate \<times> days\<close> to the accrued interest exactly when the
  days and the principal are positive, before its amount is allocated; after the last
  event one more segment, from the last date to the as-of instant, accrues by the same
  rule; the daily rate is the annual percentage divided by 365 and by 100.
\<close>

theorem interest_accrual:
  assumes "lastDate (walk r init evs) = Some l" and "new_Date (date ev) = Some e"
  shows "0 \<le> day_count l e
    \<and> (l \<le> e \<longrightarrow> day_count l e * ms_per_day \<le> e - l
                  \<and> e - l < (day_count l e + 1) * ms_per_day)
    \<and> walk r init (evs @ [ev]) =
        (allocate (amount ev)
           ((walk r init evs)\<lparr>accrued := accrued (walk r init evs)
               + interest_due (principal (walk r init evs)) r (day_count l e)\<rparr>))
        \<lparr>lastDate := Some e\<rparr>
    \<and> after_tail r asOf init evs =
        (walk r init evs)\<lparr>accrued := accrued (walk r init evs)
               + interest_due (principal (walk r init evs)) r (day_count l asOf)\<rparr>
    \<and> daily_rate (Num rate) = Inr (rate / 365 / 100)"
proof -
  have step: "walk r init (evs @ [ev]) =
        (allocate (amount ev)
           ((walk r init evs)\<lparr>accrued := accrued (walk r init evs)
               + interest_due (principal (walk r init evs)) r (day_count l e)\<rparr>))
        \<lparr>lastDate := Some e\<rparr>"
    using assms by (simp add: walk_snoc ev_step_def accrue_until_valid Let_def)
  have tail: "after_tail r asOf init evs =
        (walk r init evs)\<lparr>accrued := accrued (walk r init evs)
               + interest_due (principal (walk r init evs)) r (day_count l asOf)\<rparr>"
    using assms(1) by (simp add: after_tail_def accrue_until_valid)
  show ?thesis
    using step tail day_count_nonneg [of l e] day_count_bounds [of l e] by simp
qed

theorem interest_accrual_witness:
  "lastDate (walk (12 / 365 / 100)
      \<lparr>principal = 10000, accrued = 0, interestPaid = 0, extraInterestPaid = 0,
       lastDate = Some 0\<rparr> []) = Some 0
   \<and> new_Date (date \<lparr>amount = 500, date = DateAt 3456000000\<rparr>) = Some 3456000000
   \<and> day_count 0 3456000000 = 40
   \<and> walk (12 / 365 / 100)
      \<lparr>principal = 10000, accrued = 0, interestPaid = 0, extraInterestPaid = 0,
       lastDate = Some 0\<rparr> ([] @ [\<lparr>amount = 500, date = DateAt 3456000000\<rparr>])
     = \<lparr>principal = 703100 / 73, accrued = 0, interestPaid = 9600 / 73,
        extraInterestPaid = 0, lastDate = Some 3456000000\<rparr>
   \<and> after_tail (12 / 365 / 100) 4320000000
      \<lparr>principal = 10000, accrued = 0, interestPaid = 0, extraInterestPaid = 0,
       lastDate = Some 0\<rparr> []
     = \<lparr>principal = 10000, accrued = 12000 / 73, interestPaid = 0,
        extraInterestPaid = 0, lastDate = Some 0\<rparr>"
  using interest_accrual [where r = "12 / 365 / 100"
      and init = "\<lparr>principal = 10000, accrued = 0, interestPaid = 0, extraInterestPaid = 0,
                   lastDate = Some 0\<rparr>"
      and evs = "[]" and l = 0 and ev = "\<lparr>amount = 500, date = DateAt 3456000000\<rparr>"
      and e = 3456000000 and asOf = 4320000000 and rate = 12]
  by (simp add: walk_def day_count_def ms_per_day_def interest_due_def allocate_def Let_def)

section \<open>Payment allocation\<close>

text \<open>
  C2. For an event with a positive amount, met with a principal that is not negative:
  after the event's accrual, the interest portion \<open>min(payment, accrued)\<close> leaves the
  accrued interest and joins the interest paid; then the principal portion
  \<open>min(remaining payment, principal)\<close> leaves the principal; what still remains goes to
  the extra interest paid and reduces nothing, and there is such a remainder only when
  the principal has been retired in full.
\<close>

theorem payment_allocation_order:
  assumes "0 < amount ev" and "0 \<le> principal s"
  shows "(let a = accrue_until r (new_Date (date ev)) s;
              interestPortion = min (amount ev) (accrued a);
              principalPortion = min (amount ev - interestPortion) (principal a);
              remainder = amount ev - interestPortion - principalPortion;
              s' = ev_step r s ev
          in accrued s' = accrued a - interestPortion
           \<and> interestPaid s' = interestPaid a + interestPortion
           \<and> principal s' = principal a - principalPortion
           \<and> extraInterestPaid s' = extraInterestPaid a + remainder
           \<and> 0 \<le> remainder
           \<and> (0 < remainder \<longrightarrow> principal s' = 0))"
proof -
  have p: "0 \<le> principal (accrue_until r (new_Date (date ev)) s)"
    using assms(2) by simp
  show ?thesis
    unfolding Let_def ev_step_def
    by (simp add: allocate_payment [OF assms(1) p] min_def)
qed

theorem payment_allocation_order_witness:
  "0 < amount \<lparr>amount = 150, date = DateAt 0\<rparr>
   \<and> 0 \<le> principal \<lparr>principal = 100, accrued = 10, interestPaid = 0,
                      extraInterestPaid = 0, lastDate = Some 0\<rparr>
   \<and> accrued (ev_step (1 / 1000)
        \<lparr>principal = 100, accrued = 10, interestPaid = 0, extraInterestPaid = 0,
         lastDate = Some 0\<rparr> \<lparr>amount = 150, date = DateAt 0\<rparr>) = 0
   \<and> interestPaid (ev_step (1 / 1000)
        \<lparr>principal = 100, accrued = 10, interestPaid = 0, extraInterestPaid = 0,
         lastDate = Some 0\<rparr> \<lparr>amount = 150, date = DateAt 0\<rparr>) = 10
   \<and> principal (ev_step (1 / 1000)
        \<lparr>principal = 100, accrued = 10, interestPaid = 0, extraInterestPaid = 0,
         lastDate = Some 0\<rparr> \<lparr>amount = 150, date = DateAt 0\<rparr>) = 0
   \<and> extraInterestPaid (ev_step (1 / 1000)
        \<lparr>principal = 100, accrued = 10, interestPaid = 0, extraInterestPaid = 0,
         lastDate = Some 0\<rparr> \<lparr>amount = 150, date = DateAt 0\<rparr>) = 40"
  using payment_allocation_order [where ev = "\<lparr>amount = 150, date = DateAt 0\<rparr>"
      and s = "\<lparr>principal = 100, accrued = 10, interestPaid = 0, extraInterestPaid = 0,
                lastDate = Some 0\<rparr>"
      and r = "1 / 1000"]
  by (simp add: Let_def accrue_until_def elapsed_days_def)

section \<open>Minimum interest\<close>

text \<open>
  C3. The ledger the view is built from is the ledger after the whole walk and the
  tail segment, changed by the minimum-interest rule once: with the days since the
  loan's date counted in whole days and never negative, when they are fewer than 30
  and \<open>amountGiven \<times> dailyRate \<times> 30\<close> exceeds interest paid plus extra interest paid
  plus accrued interest, the accrued interest grows by the difference; in every other
  case, and always from 30 days on, the ledger is unchanged.
\<close>

theorem minimum_interest_once:
  assumes "new_Date (loan_date loan) = Some start"
  shows "(let w = after_tail r asOf (initial_ledger loan) events;
              daysSinceStart = day_count start asOf;
              minInterest = amountGiven loan * r * 30;
              paidSoFar = interestPaid w + extraInterestPaid w + accrued w
          in simulate r asOf loan events =
               (if daysSinceStart < 30 \<and> minInterest > paidSoFar
                then w\<lparr>accrued := accrued w + (minInterest - paidSoFar)\<rparr>
                else w)
           \<and> (30 \<le> daysSinceStart \<longrightarrow> simulate r asOf loan events = w))"
  using assms
  by (simp add: simulate_def enforce_min_interest_def elapsed_days_valid Let_def)

theorem minimum_interest_once_witness:
  "new_Date (loan_date \<lparr>amountGiven = 10000, loan_date = DateAt 0, interestRate = Num 12,
       partialRepayments = Some [], amountReceived = 0, other = ()\<rparr>) = Some 0
   \<and> day_count 0 864000000 = 10
   \<and> simulate (12 / 365 / 100) 864000000
       \<lparr>amountGiven = 10000, loan_date = DateAt 0, interestRate = Num 12,
        partialRepayments = Some [], amountReceived = 0, other = ()\<rparr> []
     = \<lparr>principal = 10000, accrued = 7200 / 73, interestPaid = 0, extraInterestPaid = 0,
        lastDate = Some 0\<rparr>"
  using minimum_interest_once [where loan = "\<lparr>amountGiven = 10000, loan_date = DateAt 0,
        interestRate = Num 12, partialRepayments = Some [], amountReceived = 0, other = ()\<rparr>"
      and start = 0 and r = "12 / 365 / 100" and asOf = 864000000 and events = "[]"]
  by (simp add: Let_def day_count_def ms_per_day_def after_tail_def walk_def
      initial_ledger_def accrue_until_def elapsed_days_def)

section \<open>Event normalisation\<close>

text \<open>
  C4, as stated, fails: an entry whose date is present but unparseable is not dropped.
  It stays in the normalised sequence and its amount is counted in the amount received.
\<close>

theorem unparseable_date_is_kept:
  "normalize (Some [Some \<lparr>amount = 1000000, date = Unparseable\<rparr>])
     = [\<lparr>amount = 1000000, date = Unparseable\<rparr>]
   \<and> new_Date (date \<lparr>amount = 1000000, date = Unparseable\<rparr>) = None
   \<and> amount_received (normalize (Some [Some \<lparr>amount = 1000000, date = Unparseable\<rparr>]))
       = 1000000"
  by (simp add: normalize_def js_sort_def amount_received_def)

text \<open>
  C4, amended. The normaliser drops every \<^verbatim>\<open>null\<close> entry and every entry whose date is
  missing (falsy), and keeps every other entry, each as often as it occurs; an entry
  whose date is present but unparseable is among those kept. A dropped entry never
  reaches accrual or the sum of the amount received: the event loop and the sum run
  over the normalised sequence only, so the view of a loan is the same with and without
  such an entry in its list. When every kept entry has a parseable date, the result is
  sorted ascending by date and entries of equal date keep their relative order. No
  error is raised for malformed input: whenever the daily rate can be computed the body
  returns a view, whatever the entries are, and a field that is not an array gives the
  empty sequence.
\<close>

theorem normalize_keeps_dated_sorted:
  "mset (normalize (Some entries)) = mset [e. Some e \<leftarrow> entries, truthy (date e)]
   \<and> normalize None = []
   \<and> ((\<forall>e. Some e \<in> set entries \<and> truthy (date e) \<longrightarrow> new_Date (date e) \<noteq> None) \<longrightarrow>
        sorted (map time_of (normalize (Some entries)))
      \<and> (\<forall>t. filter (\<lambda>e. time_of e = t) (normalize (Some entries))
              = filter (\<lambda>e. time_of e = t) [e. Some e \<leftarrow> entries, truthy (date e)]))
   \<and> (daily_rate (interestRate loan) = Inr r \<longrightarrow>
        enrich_try asOf loan =
          Inr \<lparr>stored = loan\<lparr>amountReceived :=
                    amount_received (normalize (partialRepayments loan))\<rparr>,
               remainingPrincipal =
                 principal (simulate r asOf loan (normalize (partialRepayments loan))),
               dueAmount =
                 principal (simulate r asOf loan (normalize (partialRepayments loan)))
                 + accrued (simulate r asOf loan (normalize (partialRepayments loan)))\<rparr>)
   \<and> (d = None \<or> (\<exists>e. d = Some e \<and> \<not> truthy (date e)) \<longrightarrow>
        normalize (Some (xs @ d # ys)) = normalize (Some (xs @ ys))
      \<and> remainingPrincipal (enrich asOf (loan\<lparr>partialRepayments := Some (xs @ d # ys)\<rparr>))
          = remainingPrincipal (enrich asOf (loan\<lparr>partialRepayments := Some (xs @ ys)\<rparr>))
      \<and> dueAmount (enrich asOf (loan\<lparr>partialRepayments := Some (xs @ d # ys)\<rparr>))
          = dueAmount (enrich asOf (loan\<lparr>partialRepayments := Some (xs @ ys)\<rparr>))
      \<and> amountReceived (stored (enrich asOf (loan\<lparr>partialRepayments := Some (xs @ d # ys)\<rparr>)))
          = amountReceived (stored (enrich asOf (loan\<lparr>partialRepayments := Some (xs @ ys)\<rparr>))))"
proof -
  have kept: "mset (normalize (Some entries)) = mset [e. Some e \<leftarrow> entries, truthy (date e)]"
    by (simp add: normalize_def mset_js_sort keep_dated_comprehension)
  have no_array: "normalize None = []" by (simp add: normalize_def)
  have ordered: "sorted (map time_of (normalize (Some entries)))
      \<and> (\<forall>t. filter (\<lambda>e. time_of e = t) (normalize (Some entries))
              = filter (\<lambda>e. time_of e = t) [e. Some e \<leftarrow> entries, truthy (date e)])"
    if "\<forall>e. Some e \<in> set entries \<and> truthy (date e) \<longrightarrow> new_Date (date e) \<noteq> None"
    using normalize_sort_key [OF that]
    by (simp add: sort_key_stable keep_dated_comprehension)
  have view: "enrich_try asOf loan =
          Inr \<lparr>stored = loan\<lparr>amountReceived :=
                    amount_received (normalize (partialRepayments loan))\<rparr>,
               remainingPrincipal =
                 principal (simulate r asOf loan (normalize (partialRepayments loan))),
               dueAmount =
                 principal (simulate r asOf loan (normalize (partialRepayments loan)))
                 + accrued (simulate r asOf loan (normalize (partialRepayments loan)))\<rparr>"
    if "daily_rate (interestRate loan) = Inr r"
    using that by (simp add: enrich_try_def Let_def)
  have dropped: "normalize (Some (xs @ d # ys)) = normalize (Some (xs @ ys))
      \<and> remainingPrincipal (enrich asOf (loan\<lparr>partialRepayments := Some (xs @ d # ys)\<rparr>))
          = remainingPrincipal (enrich asOf (loan\<lparr>partialRepayments := Some (xs @ ys)\<rparr>))
      \<and> dueAmount (enrich asOf (loan\<lparr>partialRepayments := Some (xs @ d # ys)\<rparr>))
          = dueAmount (enrich asOf (loan\<lparr>partialRepayments := Some (xs @ ys)\<rparr>))
      \<and> amountReceived (stored (enrich asOf (loan\<lparr>partialRepayments := Some (xs @ d # ys)\<rparr>)))
          = amountReceived (stored (enrich asOf (loan\<lparr>partialRepayments := Some (xs @ ys)\<rparr>)))"
    if "d = None \<or> (\<exists>e. d = Some e \<and> \<not> truthy (date e))"
  proof -
    have n: "normalize (Some (xs @ d # ys)) = normalize (Some (xs @ ys))"
      using that by (rule normalize_dropped)
    show ?thesis
      by (cases "daily_rate (interestRate loan)")
         (simp_all add: n enrich_def enrich_try_def fallback_def simulate_def
            initial_ledger_def Let_def)
  qed
  show ?thesis using kept no_array ordered view dropped by blast
qed

theorem normalize_keeps_dated_sorted_witness:
  "new_Date (date \<lparr>amount = 3, date = DateAt 20\<rparr>) \<noteq> None
   \<and> new_Date (date \<lparr>amount = 1, date = DateAt 10\<rparr>) \<noteq> None
   \<and> new_Date (date \<lparr>amount = 2, date = DateAt 10\<rparr>) \<noteq> None
   \<and> sorted (map time_of (normalize (Some [Some \<lparr>amount = 3, date = DateAt 20\<rparr>, None,
                         Some \<lparr>amount = 9, date = Absent\<rparr>,
                         Some \<lparr>amount = 1, date = DateAt 10\<rparr>,
                         Some \<lparr>amount = 2, date = DateAt 10\<rparr>])))
   \<and> filter (\<lambda>e. time_of e = 10)
        (normalize (Some [Some \<lparr>amount = 3, date = DateAt 20\<rparr>, None,
                         Some \<lparr>amount = 9, date = Absent\<rparr>,
                         Some \<lparr>amount = 1, date = DateAt 10\<rparr>,
                         Some \<lparr>amount = 2, date = DateAt 10\<rparr>]))
     = [\<lparr>amount = 1, date = DateAt 10\<rparr>, \<lparr>amount = 2, date = DateAt 10\<rparr>]
   \<and> normalize (Some [Some \<lparr>amount = 3, date = DateAt 20\<rparr>, None,
                         Some \<lparr>amount = 9, date = Absent\<rparr>,
                         Some \<lparr>amount = 1, date = DateAt 10\<rparr>,
                         Some \<lparr>amount = 2, date = DateAt 10\<rparr>])
     = [\<lparr>amount = 1, date = DateAt 10\<rparr>, \<lparr>amount = 2, date = DateAt 10\<rparr>,
        \<lparr>amount = 3, date = DateAt 20\<rparr>]
   \<and> daily_rate (interestRate \<lparr>amountGiven = 10000, loan_date = DateAt 0,
        interestRate = Num 12,
        partialRepayments = Some [Some \<lparr>amount = 50, date = DateAt 864000000\<rparr>],
        amountReceived = 0, other = ()\<rparr>) = Inr (12 / 365 / 100)
   \<and> \<not> truthy (date \<lparr>amount = 1000000, date = Absent\<rparr>)
   \<and> amountReceived (stored (enrich 3456000000
        (\<lparr>amountGiven = 10000, loan_date = DateAt 0, interestRate = Num 12,
          partialRepayments = Some [Some \<lparr>amount = 50, date = DateAt 864000000\<rparr>],
          amountReceived = 0, other = ()\<rparr>
         \<lparr>partialRepayments := Some ([Some \<lparr>amount = 50, date = DateAt 864000000\<rparr>]
            @ Some \<lparr>amount = 1000000, date = Absent\<rparr> # [])\<rparr>))) = 50
   \<and> remainingPrincipal (enrich 3456000000
        (\<lparr>amountGiven = 10000, loan_date = DateAt 0, interestRate = Num 12,
          partialRepayments = Some [Some \<lparr>amount = 50, date = DateAt 864000000\<rparr>],
          amountReceived = 0, other = ()\<rparr>
         \<lparr>partialRepayments := Some ([Some \<lparr>amount = 50, date = DateAt 864000000\<rparr>]
            @ Some \<lparr>amount = 1000000, date = Absent\<rparr> # [])\<rparr>))
     = 728750 / 73"
proof -
  have dated: "\<forall>e. Some e \<in> set [Some \<lparr>amount = 3, date = DateAt 20\<rparr>, None,
                         Some \<lparr>amount = 9, date = Absent\<rparr>,
                         Some \<lparr>amount = 1, date = DateAt 10\<rparr>,
                         Some \<lparr>amount = 2, date = DateAt 10\<rparr>] \<and> truthy (date e)
        \<longrightarrow> new_Date (date e) \<noteq> None"
    by auto
  have result: "normalize (Some [Some \<lparr>amount = 3, date = DateAt 20\<rparr>, None,
                         Some \<lparr>amount = 9, date = Absent\<rparr>,
                         Some \<lparr>amount = 1, date = DateAt 10\<rparr>,
                         Some \<lparr>amount = 2, date = DateAt 10\<rparr>])
     = [\<lparr>amount = 1, date = DateAt 10\<rparr>, \<lparr>amount = 2, date = DateAt 10\<rparr>,
        \<lparr>amount = 3, date = DateAt 20\<rparr>]"
    by (simp add: normalize_def js_sort_def by_date_def date_diff_def nan_as_zero_def)
  have dateless: "Some \<lparr>amount = 1000000, date = Absent\<rparr> = None
      \<or> (\<exists>e. Some \<lparr>amount = 1000000, date = Absent\<rparr> = Some e \<and> \<not> truthy (date e))"
    by simp
  have without: "amountReceived (stored (enrich 3456000000
        (\<lparr>amountGiven = 10000, loan_date = DateAt 0, interestRate = Num 12,
          partialRepayments = Some [Some \<lparr>amount = 50, date = DateAt 864000000\<rparr>],
          amountReceived = 0, other = ()\<rparr>
         \<lparr>partialRepayments := Some ([Some \<lparr>amount = 50, date = DateAt 864000000\<rparr>] @ [])\<rparr>)))
       = 50
     \<and> remainingPrincipal (enrich 3456000000
        (\<lparr>amountGiven = 10000, loan_date = DateAt 0, interestRate = Num 12,
          partialRepayments = Some [Some \<lparr>amount = 50, date = DateAt 864000000\<rparr>],
          amountReceived = 0, other = ()\<rparr>
         \<lparr>partialRepayments := Some ([Some \<lparr>amount = 50, date = DateAt 864000000\<rparr>] @ [])\<rparr>))
       = 728750 / 73"
    by (simp add: enrich_def enrich_try_def simulate_def after_tail_def walk_def normalize_def
      js_sort_def initial_ledger_def accrue_until_def elapsed_days_def ms_per_day_def
      enforce_min_interest_def amount_received_def ev_step_def allocate_def)
  have facts: "sorted (map time_of (normalize (Some [Some \<lparr>amount = 3, date = DateAt 20\<rparr>,
                         None, Some \<lparr>amount = 9, date = Absent\<rparr>,
                         Some \<lparr>amount = 1, date = DateAt 10\<rparr>,
                         Some \<lparr>amount = 2, date = DateAt 10\<rparr>])))
      \<and> filter (\<lambda>e. time_of e = 10)
        (normalize (Some [Some \<lparr>amount = 3, date = DateAt 20\<rparr>, None,
                         Some \<lparr>amount = 9, date = Absent\<rparr>,
                         Some \<lparr>amount = 1, date = DateAt 10\<rparr>,
                         Some \<lparr>amount = 2, date = DateAt 10\<rparr>]))
        = filter (\<lambda>e. time_of e = 10)
            [e. Some e \<leftarrow> [Some \<lparr>amount = 3, date = DateAt 20\<rparr>, None,
                         Some \<lparr>amount = 9, date = Absent\<rparr>,
                         Some \<lparr>amount = 1, date = DateAt 10\<rparr>,
                         Some \<lparr>amount = 2, date = DateAt 10\<rparr>], truthy (date e)]
      \<and> amountReceived (stored (enrich 3456000000
        (\<lparr>amountGiven = 10000, loan_date = DateAt 0, interestRate = Num 12,
          partialRepayments = Some [Some \<lparr>amount = 50, date = DateAt 864000000\<rparr>],
          amountReceived = 0, other = ()\<rparr>
         \<lparr>partialRepayments := Some ([Some \<lparr>amount = 50, date = DateAt 864000000\<rparr>]
            @ Some \<lparr>amount = 1000000, date = Absent\<rparr> # [])\<rparr>)))
        = amountReceived (stored (enrich 3456000000
        (\<lparr>amountGiven = 10000, loan_date = DateAt 0, interestRate = Num 12,
          partialRepayments = Some [Some \<lparr>amount = 50, date = DateAt 864000000\<rparr>],
          amountReceived = 0, other = ()\<rparr>
         \<lparr>partialRepayments := Some ([Some \<lparr>amount = 50, date = DateAt 864000000\<rparr>] @ [])\<rparr>)))
      \<and> remainingPrincipal (enrich 3456000000
        (\<lparr>amountGiven = 10000, loan_date = DateAt 0, interestRate = Num 12,
          partialRepayments = Some [Some \<lparr>amount = 50, date = DateAt 864000000\<rparr>],
          amountReceived = 0, other = ()\<rparr>
         \<lparr>partialRepayments := Some ([Some \<lparr>amount = 50, date = DateAt 864000000\<rparr>]
            @ Some \<lparr>amount = 1000000, date = Absent\<rparr> # [])\<rparr>))
        = remainingPrincipal (enrich 3456000000
        (\<lparr>amountGiven = 10000, loan_date = DateAt 0, interestRate = Num 12,
          partialRepayments = Some [Some \<lparr>amount = 50, date = DateAt 864000000\<rparr>],
          amountReceived = 0, other = ()\<rparr>
         \<lparr>partialRepayments := Some ([Some \<lparr>amount = 50, date = DateAt 864000000\<rparr>] @ [])\<rparr>))"
    using dated dateless
      normalize_keeps_dated_sorted [where entries = "[Some \<lparr>amount = 3, date = DateAt 20\<rparr>, None,
                         Some \<lparr>amount = 9, date = Absent\<rparr>,
                         Some \<lparr>amount = 1, date = DateAt 10\<rparr>,
                         Some \<lparr>amount = 2, date = DateAt 10\<rparr>]"
        and d = "Some \<lparr>amount = 1000000, date = Absent\<rparr>"
        and xs = "[Some \<lparr>amount = 50, date = DateAt 864000000\<rparr>]" and ys = "[]"
        and asOf = 3456000000
        and loan = "\<lparr>amountGiven = 10000, loan_date = DateAt 0, interestRate = Num 12,
          partialRepayments = Some [Some \<lparr>amount = 50, date = DateAt 864000000\<rparr>],
          amountReceived = 0, other = ()\<rparr>"]
    by blast
  show ?thesis
    using facts result without by (simp add: time_of_def)
qed

section \<open>Failure of one record in a batch\<close>

text \<open>
  C5. When the computation for the record at one position of a batch throws, the batch
  still yields one view for each record; the view at that position carries the stored
  record unchanged, with \<open>remainingPrincipal\<close> and \<open>dueAmount\<close> both equal to the stored
  \<open>amountGiven\<close>; and at every position where the computation succeeds the view is its
  result.
\<close>

theorem failed_record_falls_back:
  assumes "i < length loans" and "enrich_try (now i) (loans ! i) = Inl err"
  shows "length (enrich_all now loans) = length loans
       \<and> enrich_all now loans ! i =
           \<lparr>stored = loans ! i, remainingPrincipal = amountGiven (loans ! i),
            dueAmount = amountGiven (loans ! i)\<rparr>
       \<and> (\<forall>j v. j < length loans \<and> enrich_try (now j) (loans ! j) = Inr v
              \<longrightarrow> enrich_all now loans ! j = v)"
  using assms by (simp add: enrich_all_nth length_enrich_all enrich_def fallback_def)

theorem failed_record_falls_back_witness:
  "(1 :: nat) < length
      [\<lparr>amountGiven = 36500, loan_date = DateAt 0, interestRate = Num 10,
        partialRepayments = Some [], amountReceived = 0, other = ()\<rparr>,
       \<lparr>amountGiven = 1000, loan_date = DateAt 0, interestRate = BigInt 5,
        partialRepayments = Some [], amountReceived = 0, other = ()\<rparr>]
   \<and> enrich_try 3456000000
       ([\<lparr>amountGiven = 36500, loan_date = DateAt 0, interestRate = Num 10,
          partialRepayments = Some [], amountReceived = 0, other = ()\<rparr>,
         \<lparr>amountGiven = 1000, loan_date = DateAt 0, interestRate = BigInt 5,
          partialRepayments = Some [], amountReceived = 0, other = ()\<rparr>] ! 1) = Inl TypeError
   \<and> enrich_all (\<lambda>i. 3456000000)
       [\<lparr>amountGiven = 36500, loan_date = DateAt 0, interestRate = Num 10,
         partialRepayments = Some [], amountReceived = 0, other = ()\<rparr>,
        \<lparr>amountGiven = 1000, loan_date = DateAt 0, interestRate = BigInt 5,
         partialRepayments = Some [], amountReceived = 0, other = ()\<rparr>] ! 1
     = \<lparr>stored = \<lparr>amountGiven = 1000, loan_date = DateAt 0, interestRate = BigInt 5,
                  partialRepayments = Some [], amountReceived = 0, other = ()\<rparr>,
        remainingPrincipal = 1000, dueAmount = 1000\<rparr>"
  using failed_record_falls_back [where i = 1 and now = "\<lambda>i. 3456000000" and err = TypeError
      and loans = "[\<lparr>amountGiven = 36500, loan_date = DateAt 0, interestRate = Num 10,
                      partialRepayments = Some [], amountReceived = 0, other = ()\<rparr>,
                    \<lparr>amountGiven = 1000, loan_date = DateAt 0, interestRate = BigInt 5,
                      partialRepayments = Some [], amountReceived = 0, other = ()\<rparr>]"]
  by (simp add: enrich_try_def)

section \<open>Deposit balance\<close>

text \<open>
  C6, as stated, fails: a transaction without a date does not always sort earliest. It
  is sorted as if dated at the epoch, so a transaction dated before 1970 precedes it;
  here the dateless transaction ends up last and its recorded balance is the result.
\<close>

theorem dateless_transaction_not_earliest:
  "js_sort by_dateAD
     [\<lparr>txn_type = ''Deposit'', txn_amount = 20, dateAD = Absent, balanceAfter = Some 70\<rparr>,
      \<lparr>txn_type = ''Deposit'', txn_amount = 50, dateAD = DateAt (- 86400000),
       balanceAfter = Some 50\<rparr>]
   = [\<lparr>txn_type = ''Deposit'', txn_amount = 50, dateAD = DateAt (- 86400000),
       balanceAfter = Some 50\<rparr>,
      \<lparr>txn_type = ''Deposit'', txn_amount = 20, dateAD = Absent, balanceAfter = Some 70\<rparr>]
   \<and> currentBalance (enrich_deposit
       \<lparr>transactions = Some
          [Some \<lparr>txn_type = ''Deposit'', txn_amount = 20, dateAD = Absent,
                 balanceAfter = Some 70\<rparr>,
           Some \<lparr>txn_type = ''Deposit'', txn_amount = 50, dateAD = DateAt (- 86400000),
                 balanceAfter = Some 50\<rparr>],
        deposit_other = ()\<rparr>) = 70"
  by (simp add: js_sort_def by_dateAD_def effective_date_def date_diff_def nan_as_zero_def
      enrich_deposit_def reconstruct_try_def balance_of_def)

text \<open>
  C6, amended. For a non-empty transaction list whose dates, where present, are
  parseable, the transactions are sorted ascending and stably by effective date, a
  transaction without a date taking the epoch (time value 0) as its effective date. If
  the last transaction of the sorted list has a numeric \<open>balanceAfter\<close>, that is the
  current balance; otherwise the current balance is the sum over the sorted list,
  starting at 0, of each Deposit's amount added, each Withdrawal's amount subtracted and
  nothing for any other kind.
\<close>

theorem deposit_balance_reconstruction:
  assumes "txs \<noteq> []" and "\<forall>t\<in>set txs. dateAD t \<noteq> Unparseable"
  shows "currentBalance (enrich_deposit \<lparr>transactions = Some (map Some txs), deposit_other = x\<rparr>)
           = (case balanceAfter (last (sort_key epoch_ms txs)) of
                Some b \<Rightarrow> b
              | None \<Rightarrow> sum_list (map signed_amount (sort_key epoch_ms txs)))
       \<and> js_sort by_dateAD txs = sort_key epoch_ms txs
       \<and> sorted (map epoch_ms (sort_key epoch_ms txs))
       \<and> mset (sort_key epoch_ms txs) = mset txs
       \<and> (\<forall>k. filter (\<lambda>t. epoch_ms t = k) (sort_key epoch_ms txs)
                = filter (\<lambda>t. epoch_ms t = k) txs)
       \<and> (\<forall>t\<in>set txs. \<not> truthy (dateAD t) \<longrightarrow> epoch_ms t = 0)"
proof -
  have s: "js_sort by_dateAD txs = sort_key epoch_ms txs"
    using assms(2) by (rule sort_transactions_sort_key)
  have "currentBalance (enrich_deposit \<lparr>transactions = Some (map Some txs), deposit_other = x\<rparr>)
      = balance_of txs"
    using assms(1) by (simp add: enrich_deposit_def reconstruct_try_def those_map_Some)
  also have "\<dots> = (case balanceAfter (last (sort_key epoch_ms txs)) of
                Some b \<Rightarrow> b
              | None \<Rightarrow> sum_list (map signed_amount (sort_key epoch_ms txs)))"
    by (simp add: balance_of_def s foldl_apply_txn Let_def split: option.splits)
  finally have bal:
    "currentBalance (enrich_deposit \<lparr>transactions = Some (map Some txs), deposit_other = x\<rparr>)
           = (case balanceAfter (last (sort_key epoch_ms txs)) of
                Some b \<Rightarrow> b
              | None \<Rightarrow> sum_list (map signed_amount (sort_key epoch_ms txs)))" .
  show ?thesis using bal s by (simp add: sort_key_stable dateless_epoch_ms)
qed

theorem deposit_balance_reconstruction_witness:
  "[\<lparr>txn_type = ''Deposit'', txn_amount = 100, dateAD = DateAt 1000, balanceAfter = None\<rparr>,
    \<lparr>txn_type = ''Withdrawal'', txn_amount = 30, dateAD = Absent, balanceAfter = None\<rparr>] \<noteq> []
   \<and> dateAD \<lparr>txn_type = ''Deposit'', txn_amount = 100, dateAD = DateAt 1000,
               balanceAfter = None\<rparr> \<noteq> Unparseable
   \<and> dateAD \<lparr>txn_type = ''Withdrawal'', txn_amount = 30, dateAD = Absent,
               balanceAfter = None\<rparr> \<noteq> Unparseable
   \<and> sort_key epoch_ms
        [\<lparr>txn_type = ''Deposit'', txn_amount = 100, dateAD = DateAt 1000, balanceAfter = None\<rparr>,
         \<lparr>txn_type = ''Withdrawal'', txn_amount = 30, dateAD = Absent, balanceAfter = None\<rparr>]
     = [\<lparr>txn_type = ''Withdrawal'', txn_amount = 30, dateAD = Absent, balanceAfter = None\<rparr>,
        \<lparr>txn_type = ''Deposit'', txn_amount = 100, dateAD = DateAt 1000, balanceAfter = None\<rparr>]
   \<and> currentBalance (enrich_deposit
        \<lparr>transactions = Some (map Some
           [\<lparr>txn_type = ''Deposit'', txn_amount = 100, dateAD = DateAt 1000,
              balanceAfter = None\<rparr>,
            \<lparr>txn_type = ''Withdrawal'', txn_amount = 30, dateAD = Absent,
              balanceAfter = None\<rparr>]),
         deposit_other = ()\<rparr>) = 70"
  using deposit_balance_reconstruction [where x = "()" and txs =
      "[\<lparr>txn_type = ''Deposit'', txn_amount = 100, dateAD = DateAt 1000, balanceAfter = None\<rparr>,
        \<lparr>txn_type = ''Withdrawal'', txn_amount = 30, dateAD = Absent, balanceAfter = None\<rparr>]"]
  by (simp add: epoch_ms_def signed_amount_def)

text \<open>
  C7. A deposit with an empty transaction list gets the current balance 0, and so does
  a deposit whose reconstruction throws; no error reaches the caller, the view is built
  in either case. A \<^verbatim>\<open>null\<close> entry in the list is such a failure.
\<close>

theorem deposit_balance_defaults_to_zero:
  "(transactions d = Some [] \<longrightarrow> currentBalance (enrich_deposit d) = 0)
   \<and> (reconstruct_try (transactions d) = Inl err \<longrightarrow>
        enrich_deposit d = \<lparr>deposit_fields = d, currentBalance = 0\<rparr>)
   \<and> (transactions d = Some entries \<and> None \<in> set entries
        \<longrightarrow> reconstruct_try (transactions d) = Inl TypeError)"
  by (auto simp: enrich_deposit_def reconstruct_try_def those_null)

theorem deposit_balance_defaults_to_zero_witness:
  "transactions \<lparr>transactions = Some [], deposit_other = ()\<rparr> = Some []
   \<and> currentBalance (enrich_deposit \<lparr>transactions = Some [], deposit_other = ()\<rparr>) = 0
   \<and> None \<in> set [Some \<lparr>txn_type = ''Deposit'', txn_amount = 100, dateAD = DateAt 1000,
                         balanceAfter = Some 100\<rparr>, None]
   \<and> reconstruct_try (transactions
        \<lparr>transactions = Some [Some \<lparr>txn_type = ''Deposit'', txn_amount = 100,
                                     dateAD = DateAt 1000, balanceAfter = Some 100\<rparr>, None],
         deposit_other = ()\<rparr>) = Inl TypeError
   \<and> enrich_deposit
        \<lparr>transactions = Some [Some \<lparr>txn_type = ''Deposit'', txn_amount = 100,
                                     dateAD = DateAt 1000, balanceAfter = Some 100\<rparr>, None],
         deposit_other = ()\<rparr>
     = \<lparr>deposit_fields =
          \<lparr>transactions = Some [Some \<lparr>txn_type = ''Deposit'', txn_amount = 100,
                                       dateAD = DateAt 1000, balanceAfter = Some 100\<rparr>, None],
           deposit_other = ()\<rparr>,
        currentBalance = 0\<rparr>"
  using deposit_balance_defaults_to_zero
          [where d = "\<lparr>transactions = Some [], deposit_other = ()\<rparr>"]
        deposit_balance_defaults_to_zero
          [where d = "\<lparr>transactions = Some [Some \<lparr>txn_type = ''Deposit'', txn_amount = 100,
                                     dateAD = DateAt 1000, balanceAfter = Some 100\<rparr>, None],
                       deposit_other = ()\<rparr>"
             and err = TypeError
             and entries = "[Some \<lparr>txn_type = ''Deposit'', txn_amount = 100,
                                   dateAD = DateAt 1000, balanceAfter = Some 100\<rparr>, None]"]
  by simp

section \<open>Events of amount zero\<close>

text \<open>
  C8, as stated, fails: a zero-amount event moves the last date, and the partial day
  before it is lost. A loan of 36500 at 10 percent, 40 days old, owes 36900 without
  events, and 36890 with a zero-amount event after 39.5 days.
\<close>

theorem zero_amount_event_changes_due:
  "dueAmount (enrich 3456000000
      \<lparr>amountGiven = 36500, loan_date = DateAt 0, interestRate = Num 10,
       partialRepayments = Some [], amountReceived = 0, other = ()\<rparr>) = 36900
   \<and> dueAmount (enrich 3456000000
      \<lparr>amountGiven = 36500, loan_date = DateAt 0, interestRate = Num 10,
       partialRepayments = Some [Some \<lparr>amount = 0, date = DateAt 3412800000\<rparr>],
       amountReceived = 0, other = ()\<rparr>) = 36890"
  by (simp add: enrich_def enrich_try_def simulate_def after_tail_def walk_def normalize_def
      js_sort_def initial_ledger_def accrue_until_def elapsed_days_def ms_per_day_def
      enforce_min_interest_def amount_received_def ev_step_def allocate_def)

text \<open>
  C8, amended. A zero-amount event allocates nothing: at the event the principal, the
  interest paid and the extra interest paid stay as they are, interest accrues up to the
  event's date, and the last date moves to it. Inserting a zero-amount event with a
  valid date anywhere into an event sequence leaves the final principal, accrued
  interest, interest paid, extra interest paid, amount received and due amount unchanged
  whenever the event does not split the accrual of the interval it falls in: all the
  whole days from the preceding date to the following date (the next event or the as-of
  instant) are counted on one side of the event and none on the other, or the principal
  at that point is not positive and nothing accrues. Then the same product
  \<open>principal \<times> dailyRate \<times> days\<close> is added once, or not at all, with and without the
  event.
\<close>

theorem zero_amount_event_whole_days:
  assumes "amount z = 0" and "new_Date (date z) = Some dz"
    and "lastDate (walk r (initial_ledger loan) xs) = Some l"
    and "next_date asOf ys = Some dn"
    and "(day_count l dz = 0 \<and> day_count dz dn = day_count l dn)
       \<or> (day_count dz dn = 0 \<and> day_count l dz = day_count l dn)
       \<or> principal (walk r (initial_ledger loan) xs) \<le> 0"
  shows "ev_step r s z = (accrue_until r (Some dz) s)\<lparr>lastDate := Some dz\<rparr>
       \<and> principal (simulate r asOf loan (xs @ z # ys)) = principal (simulate r asOf loan (xs @ ys))
       \<and> accrued (simulate r asOf loan (xs @ z # ys)) = accrued (simulate r asOf loan (xs @ ys))
       \<and> interestPaid (simulate r asOf loan (xs @ z # ys))
           = interestPaid (simulate r asOf loan (xs @ ys))
       \<and> extraInterestPaid (simulate r asOf loan (xs @ z # ys))
           = extraInterestPaid (simulate r asOf loan (xs @ ys))
       \<and> amount_received (xs @ z # ys) = amount_received (xs @ ys)
       \<and> principal (simulate r asOf loan (xs @ z # ys)) + accrued (simulate r asOf loan (xs @ z # ys))
           = principal (simulate r asOf loan (xs @ ys)) + accrued (simulate r asOf loan (xs @ ys))"
proof -
  let ?w = "walk r (initial_ledger loan) xs"
  have step: "ev_step r s z = (accrue_until r (Some dz) s)\<lparr>lastDate := Some dz\<rparr>"
    using zero_event_step [OF assms(1), of r s] by (simp add: assms(2))
  have two: "accrue_until r (Some dn) (ev_step r ?w z)
      = (accrue_until r (Some dn) ?w)\<lparr>lastDate := Some dz\<rparr>"
    using assms(1,2,3,5) by (rule zero_event_then_accrue)
  have sim: "simulate r asOf loan (xs @ z # ys)
      = (simulate r asOf loan (xs @ ys))\<lparr>lastDate := lastDate (simulate r asOf loan (xs @ z # ys))\<rparr>"
  proof (cases ys)
    case Nil
    then have dn: "dn = asOf" using assms(4) by (simp add: next_date_def)
    show ?thesis using two
      by (simp add: Nil dn simulate_def after_tail_def walk_append walk_Cons walk_def
          enforce_lastDate)
  next
    case (Cons y ys')
    then have y: "new_Date (date y) = Some dn" using assms(4) by (simp add: next_date_def)
    have "ev_step r (ev_step r ?w z) y = ev_step r ?w y"
      using two by (simp add: ev_step_def [of r _ y] y Let_def allocate_lastDate)
    then have "simulate r asOf loan (xs @ z # ys) = simulate r asOf loan (xs @ ys)"
      by (simp add: Cons simulate_def after_tail_def walk_append walk_Cons)
    then show ?thesis by simp
  qed
  have p: "principal (simulate r asOf loan (xs @ z # ys)) = principal (simulate r asOf loan (xs @ ys))"
    by (subst sim) simp
  have a: "accrued (simulate r asOf loan (xs @ z # ys)) = accrued (simulate r asOf loan (xs @ ys))"
    by (subst sim) simp
  have i: "interestPaid (simulate r asOf loan (xs @ z # ys))
      = interestPaid (simulate r asOf loan (xs @ ys))"
    by (subst sim) simp
  have e: "extraInterestPaid (simulate r asOf loan (xs @ z # ys))
      = extraInterestPaid (simulate r asOf loan (xs @ ys))"
    by (subst sim) simp
  show ?thesis using step p a i e amount_received_zero [OF assms(1)] by simp
qed

theorem zero_amount_event_whole_days_witness:
  "amount \<lparr>amount = 0, date = DateAt 43200000\<rparr> = 0
   \<and> new_Date (date \<lparr>amount = 0, date = DateAt 43200000\<rparr>) = Some 43200000
   \<and> lastDate (walk (10 / 365 / 100) (initial_ledger
        \<lparr>amountGiven = 36500, loan_date = DateAt 0, interestRate = Num 10,
         partialRepayments = Some [], amountReceived = 0, other = ()\<rparr>) []) = Some 0
   \<and> next_date 3499200000 [] = Some 3499200000
   \<and> day_count 0 43200000 = 0
   \<and> day_count 43200000 3499200000 = day_count 0 3499200000
   \<and> day_count 0 3499200000 = 40
   \<and> accrued (simulate (10 / 365 / 100) 3499200000
        \<lparr>amountGiven = 36500, loan_date = DateAt 0, interestRate = Num 10,
         partialRepayments = Some [], amountReceived = 0, other = ()\<rparr>
        ([] @ \<lparr>amount = 0, date = DateAt 43200000\<rparr> # []))
     = accrued (simulate (10 / 365 / 100) 3499200000
        \<lparr>amountGiven = 36500, loan_date = DateAt 0, interestRate = Num 10,
         partialRepayments = Some [], amountReceived = 0, other = ()\<rparr>
        ([] @ []))"
  using zero_amount_event_whole_days [where z = "\<lparr>amount = 0, date = DateAt 43200000\<rparr>"
      and dz = 43200000 and r = "10 / 365 / 100" and xs = "[]" and ys = "[]" and l = 0
      and asOf = 3499200000 and dn = 3499200000
      and loan = "\<lparr>amountGiven = 36500, loan_date = DateAt 0, interestRate = Num 10,
                    partialRepayments = Some [], amountReceived = 0, other = ()\<rparr>"]
  by (simp add: walk_def initial_ledger_def next_date_def day_count_def ms_per_day_def)

section \<open>Non-negative quantities\<close>

text \<open>
  C10. For a loan whose amount given and interest rate are not negative, the
  principal, the accrued interest, the interest paid and the extra interest paid are
  not negative after any number of events of the walk, after the tail segment and
  after the minimum-interest rule, for every event sequence; and the
  \<open>remainingPrincipal\<close> and \<open>dueAmount\<close> of the view are not negative.
\<close>

theorem ledger_never_negative:
  assumes "0 \<le> amountGiven loan" and "0 \<le> num_value (interestRate loan)"
  shows "(\<forall>r. daily_rate (interestRate loan) = Inr r \<longrightarrow>
            (\<forall>n. nonneg (walk r (initial_ledger loan) (take n events)))
          \<and> nonneg (after_tail r asOf (initial_ledger loan) events)
          \<and> nonneg (simulate r asOf loan events))
       \<and> 0 \<le> remainingPrincipal (enrich asOf loan)
       \<and> 0 \<le> dueAmount (enrich asOf loan)"
proof -
  have sim: "nonneg (walk r (initial_ledger loan) evs)
      \<and> nonneg (after_tail r asOf (initial_ledger loan) evs)
      \<and> nonneg (simulate r asOf loan evs)"
    if "daily_rate (interestRate loan) = Inr r" for r evs
  proof -
    have r: "0 \<le> r" using assms(2) that by (rule daily_rate_nonneg)
    have w: "nonneg (walk r (initial_ledger loan) evs)"
      using r assms(1) by (simp add: nonneg_walk nonneg_initial)
    then have t: "nonneg (after_tail r asOf (initial_ledger loan) evs)"
      using r by (simp add: after_tail_def nonneg_accrue_until)
    then show ?thesis using w by (simp add: simulate_def nonneg_enforce)
  qed
  have view: "0 \<le> remainingPrincipal (enrich asOf loan) \<and> 0 \<le> dueAmount (enrich asOf loan)"
  proof (cases "daily_rate (interestRate loan)")
    case (Inl err)
    then show ?thesis using assms(1) by (simp add: enrich_def enrich_try_def fallback_def)
  next
    case (Inr r)
    from sim [OF Inr, of "normalize (partialRepayments loan)"]
    have "nonneg (simulate r asOf loan (normalize (partialRepayments loan)))" by simp
    then show ?thesis using Inr by (simp add: enrich_def enrich_try_def Let_def nonneg_def)
  qed
  show ?thesis using sim view by blast
qed

theorem ledger_never_negative_witness:
  "0 \<le> amountGiven \<lparr>amountGiven = 100, loan_date = DateAt 0, interestRate = Num 12,
       partialRepayments = Some [Some \<lparr>amount = 5000, date = DateAt 3456000000\<rparr>],
       amountReceived = 0, other = ()\<rparr>
   \<and> 0 \<le> num_value (interestRate \<lparr>amountGiven = 100, loan_date = DateAt 0,
       interestRate = Num 12,
       partialRepayments = Some [Some \<lparr>amount = 5000, date = DateAt 3456000000\<rparr>],
       amountReceived = 0, other = ()\<rparr>)
   \<and> nonneg (simulate (12 / 365 / 100) 4320000000
       \<lparr>amountGiven = 100, loan_date = DateAt 0, interestRate = Num 12,
        partialRepayments = Some [Some \<lparr>amount = 5000, date = DateAt 3456000000\<rparr>],
        amountReceived = 0, other = ()\<rparr> [\<lparr>amount = 5000, date = DateAt 3456000000\<rparr>])
   \<and> 0 \<le> remainingPrincipal (enrich 4320000000
       \<lparr>amountGiven = 100, loan_date = DateAt 0, interestRate = Num 12,
        partialRepayments = Some [Some \<lparr>amount = 5000, date = DateAt 3456000000\<rparr>],
        amountReceived = 0, other = ()\<rparr>)
   \<and> 0 \<le> dueAmount (enrich 4320000000
       \<lparr>amountGiven = 100, loan_date = DateAt 0, interestRate = Num 12,
        partialRepayments = Some [Some \<lparr>amount = 5000, date = DateAt 3456000000\<rparr>],
        amountReceived = 0, other = ()\<rparr>)"
  using ledger_never_negative [where asOf = 4320000000
      and events = "[\<lparr>amount = 5000, date = DateAt 3456000000\<rparr>]"
      and loan = "\<lparr>amountGiven = 100, loan_date = DateAt 0, interestRate = Num 12,
        partialRepayments = Some [Some \<lparr>amount = 5000, date = DateAt 3456000000\<rparr>],
        amountReceived = 0, other = ()\<rparr>"]
  by simp

end
